theory Spec2Isabelle
  imports Complex_Main "HOL-Library.Multiset" "HOL-Library.Stream"
begin

section \<open>vec3.h: the vector algebra\<close>

text \<open>
  The C++ \<^verbatim>\<open>float\<close> is modelled by \<^typ>\<open>real\<close>: all results below are
  statements of exact arithmetic. Rounding, infinities and NaN are outside the model;
  a division by zero, which the source leaves to IEEE arithmetic, is HOL's \<open>x / 0 = 0\<close>.
\<close>

datatype vec3 = vec3 (e0: real) (e1: real) (e2: real)

instantiation vec3 :: "{plus, minus, uminus, times}"
begin

definition plus_vec3 :: "vec3 \<Rightarrow> vec3 \<Rightarrow> vec3" where
  "plus_vec3 v1 v2 = vec3 (e0 v1 + e0 v2) (e1 v1 + e1 v2) (e2 v1 + e2 v2)"

definition minus_vec3 :: "vec3 \<Rightarrow> vec3 \<Rightarrow> vec3" where
  "minus_vec3 v1 v2 = vec3 (e0 v1 - e0 v2) (e1 v1 - e1 v2) (e2 v1 - e2 v2)"

definition uminus_vec3 :: "vec3 \<Rightarrow> vec3" where
  "uminus_vec3 v = vec3 (- e0 v) (- e1 v) (- e2 v)"

definition times_vec3 :: "vec3 \<Rightarrow> vec3 \<Rightarrow> vec3" where
  \<comment> \<open>component-wise product, used for colours\<close>
  "times_vec3 v1 v2 = vec3 (e0 v1 * e0 v2) (e1 v1 * e1 v2) (e2 v1 * e2 v2)"

instance ..

end

text \<open>\<^verbatim>\<open>operator*(float, vec3)\<close>, \<^verbatim>\<open>operator*(vec3, float)\<close> and \<^verbatim>\<open>operator/(vec3, float)\<close>.\<close>

definition smul :: "real \<Rightarrow> vec3 \<Rightarrow> vec3" where
  "smul k v1 = vec3 (e0 v1 * k) (e1 v1 * k) (e2 v1 * k)"

definition muls :: "vec3 \<Rightarrow> real \<Rightarrow> vec3" where
  "muls v1 k = vec3 (e0 v1 * k) (e1 v1 * k) (e2 v1 * k)"

definition divs :: "vec3 \<Rightarrow> real \<Rightarrow> vec3" where
  "divs v1 k = vec3 (e0 v1 / k) (e1 v1 / k) (e2 v1 / k)"

definition squared_length :: "vec3 \<Rightarrow> real" where
  "squared_length v = e0 v * e0 v + e1 v * e1 v + e2 v * e2 v"

definition length_vec3 :: "vec3 \<Rightarrow> real" where
  "length_vec3 v = sqrt (squared_length v)"

definition dot :: "vec3 \<Rightarrow> vec3 \<Rightarrow> real" where
  "dot v1 v2 = e0 v1 * e0 v2 + e1 v1 * e1 v2 + e2 v1 * e2 v2"

definition cross :: "vec3 \<Rightarrow> vec3 \<Rightarrow> vec3" where
  "cross v1 v2 = vec3 (e1 v1 * e2 v2 - e2 v1 * e1 v2)
                      (- e0 v1 * e2 v2 + e2 v1 * e0 v2)
                      (e0 v1 * e1 v2 - e1 v1 * e0 v2)"

definition unit_vector :: "vec3 \<Rightarrow> vec3" where
  "unit_vector v = divs v (length_vec3 v)"

section \<open>ray.h\<close>

record ray =
  orig :: vec3
  dir :: vec3

definition ray_at :: "ray \<Rightarrow> real \<Rightarrow> vec3" where
  "ray_at r k = orig r + smul k (dir r)"

section \<open>material.h: the material variants\<close>

text \<open>
  The three subclasses of \<^verbatim>\<open>material\<close> with their fields. A
  \<^verbatim>\<open>shared_ptr<material>\<close> is a \<open>material option\<close>, \<open>None\<close> being the null pointer
  that the default constructors leave behind.
\<close>

datatype material = Lambertian vec3 | Metal vec3 | Dielectric real

section \<open>hitable.h: hit records, spheres and lists of hitables\<close>

record hit_record =
  rec_t :: real
  rec_p :: vec3
  rec_normal :: vec3
  rec_mat_ptr :: "material option"

record sphere =
  center :: vec3
  radius :: real
  mat :: "material option"

text \<open>
  \<^verbatim>\<open>sphere::hit\<close>. The output parameter \<^verbatim>\<open>rec\<close> is passed in and returned
  next to the boolean result, so that what the function leaves untouched is visible.
\<close>

definition sphere_hit :: "sphere \<Rightarrow> ray \<Rightarrow> real \<Rightarrow> real \<Rightarrow> hit_record \<Rightarrow> bool \<times> hit_record" where
  "sphere_hit s r t_min t_max rec =
     (let oc = orig r - center s;
          a = dot (dir r) (dir r);
          b = dot oc (dir r);
          c = dot oc oc - radius s * radius s;
          discriminant = b * b - a * c
      in if discriminant > 0 then
           (let temp = (- b - sqrt discriminant) / a
            in if temp < t_max \<and> temp > t_min then
                 (let rec1 = rec\<lparr>rec_t := temp\<rparr>;
                      rec2 = rec1\<lparr>rec_p := ray_at r (rec_t rec1)\<rparr>;
                      rec3 = rec2\<lparr>rec_normal := divs (rec_p rec2 - center s) (radius s)\<rparr>;
                      rec4 = rec3\<lparr>rec_mat_ptr := mat s\<rparr>
                  in (True, rec4))
               else
                 (let temp = (- b + sqrt discriminant) / a
                  in if temp < t_max \<and> temp > t_min then
                       (let rec1 = rec\<lparr>rec_t := temp\<rparr>;
                            rec2 = rec1\<lparr>rec_p := ray_at r (rec_t rec1)\<rparr>;
                            rec3 = rec2\<lparr>rec_normal := divs (rec_p rec2 - center s) (radius s)\<rparr>;
                            rec4 = rec3\<lparr>rec_mat_ptr := mat s\<rparr>
                        in (True, rec4))
                     else (False, rec)))
         else (False, rec))"

text \<open>
  The classes derived from \<^verbatim>\<open>hitable\<close>: a sphere, or a \<^verbatim>\<open>hitable_list\<close> with
  its vector of \<^verbatim>\<open>objects\<close>, which are hitables again.
\<close>

datatype hitable = Sphere sphere | Hitable_list "hitable list"

text \<open>
  The local \<^verbatim>\<open>hit_record temp_rec;\<close> of \<^verbatim>\<open>hitable_list::hit\<close> (and
  \<^verbatim>\<open>rec\<close> of \<^verbatim>\<open>color\<close>) is default-initialised: the two vectors are zero, the pointer
  is null and \<^verbatim>\<open>t\<close> is indeterminate. The model puts 0 there; lemma
  \<open>hit_loop_temp_rec\<close> shows that the value is never observed.
\<close>

definition default_hit_record :: hit_record where
  "default_hit_record =
     \<lparr>rec_t = 0, rec_p = vec3 0 0 0, rec_normal = vec3 0 0 0, rec_mat_ptr = None\<rparr>"

text \<open>
  \<^verbatim>\<open>hitable::hit\<close> with its virtual dispatch, and the loop of
  \<^verbatim>\<open>hitable_list::hit\<close> over the remaining objects, with the locals
  \<^verbatim>\<open>closest_so_far\<close>, \<^verbatim>\<open>temp_rec\<close>, \<^verbatim>\<open>hit_anything\<close> and the output \<^verbatim>\<open>rec\<close>.
\<close>

fun hit :: "hitable \<Rightarrow> ray \<Rightarrow> real \<Rightarrow> real \<Rightarrow> hit_record \<Rightarrow> bool \<times> hit_record"
  and hit_loop :: "hitable list \<Rightarrow> ray \<Rightarrow> real \<Rightarrow> real \<Rightarrow> hit_record \<Rightarrow> bool \<Rightarrow> hit_record
                   \<Rightarrow> bool \<times> hit_record" where
  "hit (Sphere s) r t_min t_max rec = sphere_hit s r t_min t_max rec"
| "hit (Hitable_list objects) r t_min t_max rec =
     hit_loop objects r t_min t_max default_hit_record False rec"
| "hit_loop [] r t_min closest_so_far temp_rec hit_anything rec = (hit_anything, rec)"
| "hit_loop (object # objects) r t_min closest_so_far temp_rec hit_anything rec =
     (case hit object r t_min closest_so_far temp_rec of
        (True, temp_rec') \<Rightarrow> hit_loop objects r t_min (rec_t temp_rec') temp_rec' True temp_rec'
      | (False, temp_rec') \<Rightarrow> hit_loop objects r t_min closest_so_far temp_rec' hit_anything rec)"

section \<open>vec3.h: the random utilities\<close>

text \<open>
  The random sources are global state of the program: the two function-local statics
  of \<^verbatim>\<open>random_float\<close> and the hidden state of the C library's \<^verbatim>\<open>rand\<close>.
  \<^item> \<open>distribution\<close> holds the parameters \<open>(a, b)\<close> of the static
    \<^verbatim>\<open>std::uniform_real_distribution<float>\<close>; \<open>None\<close> until the first call of
    \<^verbatim>\<open>random_float\<close> has run its initialiser.
  \<^item> \<open>generator\<close> is the sequence of canonical values in \<open>[0, 1)\<close> that the static
    \<^verbatim>\<open>std::mt19937\<close> will deliver.
  \<^item> \<open>rand_seq\<close> is the sequence of values that \<^verbatim>\<open>rand()\<close> will return, each
    between 0 and \<^verbatim>\<open>RAND_MAX\<close>.
  Both sequences are parameters of the model. The record carries one more parameter,
  which the program never changes: \<open>arg_order\<close>, the order in which the compiled program
  evaluates the three arguments of the constructor call in \<^verbatim>\<open>random_vec3\<close>. C++ leaves
  that order unspecified (the GNU compiler evaluates the last argument first, which is
  \<open>ZYX\<close>), so every statement about a drawn vector is made for all six orders.
\<close>

datatype eval_order = XYZ | XZY | YXZ | YZX | ZXY | ZYX

record rng =
  distribution :: "(real \<times> real) option"
  generator :: "real stream"
  rand_seq :: "int stream"
  arg_order :: eval_order

text \<open>
  \<^verbatim>\<open>RAND_MAX\<close> of \<^verbatim>\<open><cstdlib>\<close>, with the value of the GNU C library.
\<close>

definition RAND_MAX :: int where
  "RAND_MAX = 2147483647"

text \<open>
  \<^verbatim>\<open>random_float\<close>. A static local is initialised by the first call that reaches its
  declaration, with the arguments of that call, and never again. The distribution maps
  a canonical value \<open>u\<close> to \<open>u * (b - a) + a\<close>.
\<close>

definition random_float :: "real \<Rightarrow> real \<Rightarrow> rng \<Rightarrow> real \<times> rng" where
  "random_float minv maxv g =
     (let d = (case distribution g of None \<Rightarrow> (minv, maxv) | Some ab \<Rightarrow> ab)
      in (shd (generator g) * (snd d - fst d) + fst d,
          g\<lparr>distribution := Some d, generator := stl (generator g)\<rparr>))"

text \<open>
  The vector built from three values drawn one after the other, when the constructor's
  arguments are evaluated in the given order: for \<open>ZYX\<close> the first value drawn is the
  z component and the third is the x component.
\<close>

fun arrange :: "eval_order \<Rightarrow> real \<Rightarrow> real \<Rightarrow> real \<Rightarrow> vec3" where
  "arrange XYZ d1 d2 d3 = vec3 d1 d2 d3"
| "arrange XZY d1 d2 d3 = vec3 d1 d3 d2"
| "arrange YXZ d1 d2 d3 = vec3 d2 d1 d3"
| "arrange YZX d1 d2 d3 = vec3 d3 d1 d2"
| "arrange ZXY d1 d2 d3 = vec3 d2 d3 d1"
| "arrange ZYX d1 d2 d3 = vec3 d3 d2 d1"

text \<open>
  \<^verbatim>\<open>random_vec3\<close> (the name alone is taken by the datatype package): three calls of
  \<^verbatim>\<open>random_float\<close> with the same arguments, in the order of \<open>arg_order\<close>.
\<close>

definition random_vec3_range :: "real \<Rightarrow> real \<Rightarrow> rng \<Rightarrow> vec3 \<times> rng" where
  "random_vec3_range minv maxv g =
     (case random_float minv maxv g of (d1, g1) \<Rightarrow>
      case random_float minv maxv g1 of (d2, g2) \<Rightarrow>
      case random_float minv maxv g2 of (d3, g3) \<Rightarrow> (arrange (arg_order g) d1 d2 d3, g3))"

text \<open>
  \<^verbatim>\<open>random_in_unit_sphere\<close>: the rejection loop may run forever, which is the value
  \<open>None\<close>.
\<close>

partial_function (option) random_in_unit_sphere :: "rng \<Rightarrow> (vec3 \<times> rng) option" where
  "random_in_unit_sphere g =
     (case random_vec3_range (- 1) 1 g of (p, g') \<Rightarrow>
        if squared_length p \<ge> 1 then random_in_unit_sphere g' else Some (p, g'))"

section \<open>material.h: scattering\<close>

text \<open>\<^verbatim>\<open>metal::reflect\<close> and \<^verbatim>\<open>dielectric::reflect\<close>, which have the same body.\<close>

definition reflect :: "vec3 \<Rightarrow> vec3 \<Rightarrow> vec3" where
  "reflect v n = v - smul (2 * dot v n) n"

text \<open>
  Every \<^verbatim>\<open>scatter\<close> assigns both of its output parameters \<^verbatim>\<open>attenuation\<close> and
  \<^verbatim>\<open>scattered\<close> on every path, so the model returns them (with the boolean result and
  the random state) and takes no previous value for them.
\<close>

definition lambertian_scatter :: "vec3 \<Rightarrow> ray \<Rightarrow> hit_record \<Rightarrow> rng \<Rightarrow> (bool \<times> vec3 \<times> ray \<times> rng) option" where
  "lambertian_scatter albedo r_in rec g =
     (case random_in_unit_sphere g of
        None \<Rightarrow> None
      | Some (q, g') \<Rightarrow>
          (let target = rec_p rec + rec_normal rec + q;
               scattered = \<lparr>orig = rec_p rec, dir = target - rec_p rec\<rparr>;
               attenuation = albedo
           in Some (True, attenuation, scattered, g')))"

definition metal_scatter :: "vec3 \<Rightarrow> ray \<Rightarrow> hit_record \<Rightarrow> bool \<times> vec3 \<times> ray" where
  "metal_scatter albedo r_in rec =
     (let reflected = reflect (unit_vector (dir r_in)) (rec_normal rec);
          scattered = \<lparr>orig = rec_p rec, dir = reflected\<rparr>;
          attenuation = albedo
      in (dot (dir scattered) (rec_normal rec) > 0, attenuation, scattered))"

text \<open>\<^verbatim>\<open>dielectric::refract\<close> writes its output parameter only when it returns true.\<close>

definition refract :: "vec3 \<Rightarrow> vec3 \<Rightarrow> real \<Rightarrow> vec3 \<Rightarrow> bool \<times> vec3" where
  "refract v n ni_over_nt refracted =
     (let uv = unit_vector v;
          dt = dot uv n;
          discriminant = 1 - ni_over_nt * ni_over_nt * (1 - dt * dt)
      in if discriminant > 0
         then (True, smul ni_over_nt (uv - muls n dt) - muls n (sqrt discriminant))
         else (False, refracted))"

definition schlick :: "real \<Rightarrow> real \<Rightarrow> real" where
  "schlick ref_idx cosine =
     (let r0 = (1 - ref_idx) / (1 + ref_idx);
          r0 = r0 * r0
      in r0 + (1 - r0) * (1 - cosine) ^ 5)"

text \<open>
  \<^verbatim>\<open>dielectric::scatter\<close>. The local \<^verbatim>\<open>vec3 refracted;\<close> is the zero vector of the
  default constructor until \<^verbatim>\<open>refract\<close> assigns it.
\<close>

definition dielectric_scatter :: "real \<Rightarrow> ray \<Rightarrow> hit_record \<Rightarrow> rng \<Rightarrow> bool \<times> vec3 \<times> ray \<times> rng" where
  "dielectric_scatter ref_idx r_in rec g =
     (let reflected = reflect (unit_vector (dir r_in)) (rec_normal rec);
          attenuation = vec3 1 1 1;
          refracted = vec3 0 0 0;
          (outward_normal, ni_over_nt, cosine) =
             (if dot (dir r_in) (rec_normal rec) > 0
              then (- rec_normal rec, ref_idx,
                    ref_idx * dot (dir r_in) (rec_normal rec) / length_vec3 (dir r_in))
              else (rec_normal rec, 1 / ref_idx,
                    - dot (dir r_in) (rec_normal rec) / length_vec3 (dir r_in)));
          (refracts, refracted) = refract (dir r_in) outward_normal ni_over_nt refracted;
          reflect_prob = (if refracts then schlick ref_idx cosine else 1);
          scattered =
             (if real_of_int (shd (rand_seq g)) / real_of_int RAND_MAX < reflect_prob
              then \<lparr>orig = rec_p rec, dir = reflected\<rparr>
              else \<lparr>orig = rec_p rec, dir = refracted\<rparr>)
      in (True, attenuation, scattered, g\<lparr>rand_seq := stl (rand_seq g)\<rparr>))"

text \<open>The virtual call \<^verbatim>\<open>material::scatter\<close>.\<close>

fun scatter :: "material \<Rightarrow> ray \<Rightarrow> hit_record \<Rightarrow> rng \<Rightarrow> (bool \<times> vec3 \<times> ray \<times> rng) option" where
  "scatter (Lambertian albedo) r_in rec g = lambertian_scatter albedo r_in rec g"
| "scatter (Metal albedo) r_in rec g =
     (case metal_scatter albedo r_in rec of
        (b, attenuation, scattered) \<Rightarrow> Some (b, attenuation, scattered, g))"
| "scatter (Dielectric ref_idx) r_in rec g = Some (dielectric_scatter ref_idx r_in rec g)"

section \<open>camera.h\<close>

record camera =
  origin :: vec3
  horizontal :: vec3
  vertical :: vec3
  lower_left_corner :: vec3

text \<open>
  The constructor of \<^verbatim>\<open>camera\<close>, in exact arithmetic: \<^verbatim>\<open>M_PI\<close> is \<open>pi\<close> and
  \<^verbatim>\<open>tan\<close> is the tangent of the reals. Where the tangent has a pole (a field of view
  of 180 degrees) HOL's \<open>tan\<close> is 0, which is not what the program computes from its
  rounded \<^verbatim>\<open>M_PI\<close>; where a vector to be normalised is zero, HOL's division gives the
  zero vector. Statements about the camera therefore assume a field of view strictly
  between 0 and 180 degrees and vectors that can be normalised, and they are statements
  of exact arithmetic, not of the rounded \<^verbatim>\<open>float\<close> values.
\<close>

definition new_camera :: "vec3 \<Rightarrow> vec3 \<Rightarrow> vec3 \<Rightarrow> real \<Rightarrow> real \<Rightarrow> camera" where
  "new_camera lookfrom lookat vup vfov aspect =
     (let theta = vfov * pi / 180;
          half_height = tan (theta / 2);
          half_width = aspect * half_height;
          origin' = lookfrom;
          w = unit_vector (lookfrom - lookat);
          u = unit_vector (cross vup w);
          v = cross w u
      in \<lparr>origin = origin',
          horizontal = smul (2 * half_width) u,
          vertical = smul (2 * half_height) v,
          lower_left_corner = origin' - smul half_width u - smul half_height v - w\<rparr>)"

definition get_ray :: "camera \<Rightarrow> real \<Rightarrow> real \<Rightarrow> ray" where
  "get_ray cam s t =
     \<lparr>orig = origin cam,
      dir = lower_left_corner cam + smul s (horizontal cam) + smul t (vertical cam) - origin cam\<rparr>"

section \<open>main.cpp: the recursive colour function\<close>

definition FLT_MAX :: real where
  "FLT_MAX = 340282346638528859811704183484516925440"

text \<open>
  What \<^verbatim>\<open>color\<close> can do instead of returning a colour: dereference the null
  \<^verbatim>\<open>mat_ptr\<close> of a sphere built without a material, or never return from the
  sampling loop of a Lambertian material.
\<close>

datatype error = Null_mat_ptr | No_return

text \<open>
  \<^verbatim>\<open>color\<close>. The depth is an \<^verbatim>\<open>int\<close>; \<^verbatim>\<open>depth+1\<close> is only computed when
  \<^verbatim>\<open>depth <= 50\<close>, so it never overflows and the model uses \<^typ>\<open>int\<close>.
\<close>

function color :: "ray \<Rightarrow> hitable \<Rightarrow> int \<Rightarrow> rng \<Rightarrow> error + (vec3 \<times> rng)" where
  "color r world depth g =
     (if depth > 50 then Inr (vec3 0 0 0, g)
      else
        (case hit world r 0.0001 FLT_MAX default_hit_record of
           (True, rec) \<Rightarrow>
             (case rec_mat_ptr rec of
                None \<Rightarrow> Inl Null_mat_ptr
              | Some m \<Rightarrow>
                  (case scatter m r rec g of
                     None \<Rightarrow> Inl No_return
                   | Some (True, attenuation, scattered, g') \<Rightarrow>
                       (case color scattered world (depth + 1) g' of
                          Inl e \<Rightarrow> Inl e
                        | Inr (c, g'') \<Rightarrow> Inr (attenuation * c, g''))
                   | Some (False, attenuation, scattered, g') \<Rightarrow> Inr (vec3 0 0 0, g')))
         | (False, rec) \<Rightarrow>
             (let unit_direction = unit_vector (dir r);
                  t = 0.5 * (e1 unit_direction + 1.0)
              in Inr (smul (1.0 - t) (vec3 1 1 1) + smul t (vec3 0.5 0.7 1.0), g))))"
  by pat_completeness auto
termination
  by (relation "measure (\<lambda>(r, world, depth, g). nat (51 - depth))") auto

section \<open>Notions used in the proofs\<close>

text \<open>
  The discriminant and the two roots that \<^verbatim>\<open>sphere::hit\<close> computes, and the record it
  writes for an accepted root.
\<close>

definition sphere_disc :: "sphere \<Rightarrow> ray \<Rightarrow> real" where
  "sphere_disc s r =
     dot (orig r - center s) (dir r) * dot (orig r - center s) (dir r)
     - dot (dir r) (dir r) * (dot (orig r - center s) (orig r - center s) - radius s * radius s)"

definition sphere_root1 :: "sphere \<Rightarrow> ray \<Rightarrow> real" where
  "sphere_root1 s r =
     (- dot (orig r - center s) (dir r) - sqrt (sphere_disc s r)) / dot (dir r) (dir r)"

definition sphere_root2 :: "sphere \<Rightarrow> ray \<Rightarrow> real" where
  "sphere_root2 s r =
     (- dot (orig r - center s) (dir r) + sqrt (sphere_disc s r)) / dot (dir r) (dir r)"

definition sphere_rec :: "sphere \<Rightarrow> ray \<Rightarrow> real \<Rightarrow> hit_record" where
  "sphere_rec s r k =
     \<lparr>rec_t = k, rec_p = ray_at r k,
      rec_normal = divs (ray_at r k - center s) (radius s), rec_mat_ptr = mat s\<rparr>"

text \<open>
  What every hitable guarantees: a miss leaves the record alone, and a hit reports a
  parameter strictly inside the queried range together with the point of the ray there.
\<close>

definition hit_ok :: "hitable \<Rightarrow> bool" where
  "hit_ok h \<longleftrightarrow> (\<forall>r t_min c rec.
      hit h r t_min c rec = (False, rec) \<or>
      (fst (hit h r t_min c rec) \<and> t_min < rec_t (snd (hit h r t_min c rec)) \<and>
       rec_t (snd (hit h r t_min c rec)) < c \<and>
       rec_p (snd (hit h r t_min c rec)) = ray_at r (rec_t (snd (hit h r t_min c rec)))))"

text \<open>
  A hitable tested against a smaller upper bound reports the hit it reports for the
  larger bound when that hit is below the smaller bound, and a miss otherwise.
\<close>

definition narrow_ok :: "hitable \<Rightarrow> bool" where
  "narrow_ok h \<longleftrightarrow> (\<forall>r t_min c c' rec rec'. c \<le> c' \<longrightarrow>
      hit h r t_min c rec =
        (if fst (hit h r t_min c' rec') \<and> rec_t (snd (hit h r t_min c' rec')) < c
         then (True, snd (hit h r t_min c' rec')) else (False, rec)))"

section \<open>Example inputs\<close>

text \<open>
  A ray down the negative z axis, a unit sphere two units ahead, a unit sphere five units
  ahead, and the unit sphere around the ray's origin, which touches the first one where
  the ray leaves it.
\<close>

definition ex_ray :: ray where
  "ex_ray = \<lparr>orig = vec3 0 0 0, dir = vec3 0 0 (- 1)\<rparr>"

definition ex_near :: sphere where
  "ex_near = \<lparr>center = vec3 0 0 (- 2), radius = 1, mat = Some (Lambertian (vec3 0.8 0.3 0.3))\<rparr>"

definition ex_far :: sphere where
  "ex_far = \<lparr>center = vec3 0 0 (- 5), radius = 1, mat = Some (Metal (vec3 0.8 0.6 0.2))\<rparr>"

definition ex_around :: sphere where
  "ex_around = \<lparr>center = vec3 0 0 0, radius = 1, mat = Some (Dielectric 1.5)\<rparr>"

text \<open>
  A state of the random sources in which \<^verbatim>\<open>random_float\<close> has not been called yet,
  the generator will deliver 0.3 and then 0.95 for ever, \<^verbatim>\<open>rand()\<close> returns
  \<^verbatim>\<open>RAND_MAX\<close>, and constructor arguments are evaluated from the last to the first.
\<close>

definition ex_rng :: rng where
  "ex_rng = \<lparr>distribution = None, generator = 3 / 10 ## sconst (19 / 20),
             rand_seq = sconst RAND_MAX, arg_order = ZYX\<rparr>"

text \<open>
  A ray of unit direction that leaves glass through a surface with normal \<open>(0, 1, 0)\<close> at
  a flat angle, and the record of its hit.
\<close>

definition ex_r_in :: ray where
  "ex_r_in = \<lparr>orig = vec3 (- 4 / 5) (- 3 / 5) 0, dir = vec3 (4 / 5) (3 / 5) 0\<rparr>"

definition ex_rec :: hit_record where
  "ex_rec = \<lparr>rec_t = 1, rec_p = vec3 0 0 0, rec_normal = vec3 0 1 0,
             rec_mat_ptr = Some (Dielectric 1.5)\<rparr>"

section \<open>Vectors\<close>

lemma dot_self_nonneg: "0 \<le> dot d d"
  by (simp add: dot_def)

lemma dot_self_zero: "dot d d = 0 \<Longrightarrow> dot oc d = 0"
proof -
  assume h: "dot d d = 0"
  have "e0 d * e0 d + e1 d * e1 d + e2 d * e2 d = 0" using h by (simp add: dot_def)
  then have "e0 d = 0 \<and> e1 d = 0 \<and> e2 d = 0"
    by (smt (verit) mult_eq_0_iff zero_le_square add_nonneg_eq_0_iff add_nonneg_nonneg)
  then show ?thesis by (simp add: dot_def)
qed

section \<open>The sphere\<close>

lemma sphere_hit_cases:
  "sphere_hit s r t_min t_max rec =
     (if sphere_disc s r > 0 \<and> sphere_root1 s r < t_max \<and> sphere_root1 s r > t_min
        then (True, sphere_rec s r (sphere_root1 s r))
      else if sphere_disc s r > 0 \<and> sphere_root2 s r < t_max \<and> sphere_root2 s r > t_min
        then (True, sphere_rec s r (sphere_root2 s r))
      else (False, rec))"
  by (cases rec)
    (simp add: sphere_hit_def Let_def sphere_disc_def sphere_root1_def sphere_root2_def
      sphere_rec_def)

lemma sphere_disc_pos_dir:
  assumes "sphere_disc s r > 0"
  shows "dot (dir r) (dir r) > 0"
proof (rule ccontr)
  assume "\<not> dot (dir r) (dir r) > 0"
  with dot_self_nonneg [of "dir r"] have z: "dot (dir r) (dir r) = 0" by simp
  with dot_self_zero [of "dir r" "orig r - center s"] assms show False
    by (simp add: sphere_disc_def)
qed

lemma sphere_roots_ordered:
  assumes "sphere_disc s r > 0"
  shows "sphere_root1 s r < sphere_root2 s r"
proof -
  have "sqrt (sphere_disc s r) > 0" using assms by simp
  then show ?thesis
    using sphere_disc_pos_dir [OF assms]
    by (simp add: sphere_root1_def sphere_root2_def divide_strict_right_mono)
qed

lemma sphere_hit_range:
  "fst (sphere_hit s r t_min t_max rec) \<Longrightarrow>
     t_min < rec_t (snd (sphere_hit s r t_min t_max rec)) \<and>
     rec_t (snd (sphere_hit s r t_min t_max rec)) < t_max"
  by (simp add: sphere_hit_cases sphere_rec_def split: if_splits)

lemma sphere_hit_miss:
  "\<not> fst (sphere_hit s r t_min t_max rec) \<Longrightarrow> snd (sphere_hit s r t_min t_max rec) = rec"
  by (auto simp add: sphere_hit_cases split: if_splits)

lemma sphere_hit_at:
  "fst (sphere_hit s r t_min t_max rec) \<Longrightarrow>
     rec_p (snd (sphere_hit s r t_min t_max rec)) =
     ray_at r (rec_t (snd (sphere_hit s r t_min t_max rec)))"
  by (simp add: sphere_hit_cases sphere_rec_def split: if_splits)

text \<open>
  A sphere tested against a smaller upper bound reports the hit it reports for the
  larger bound when that hit is below the smaller bound, and a miss otherwise.
\<close>

lemma sphere_hit_narrow:
  assumes "c \<le> c'"
  shows "sphere_hit s r t_min c rec =
     (if fst (sphere_hit s r t_min c' rec') \<and> rec_t (snd (sphere_hit s r t_min c' rec')) < c
      then (True, snd (sphere_hit s r t_min c' rec')) else (False, rec))"
proof (cases "sphere_disc s r > 0")
  case False
  then show ?thesis by (simp add: sphere_hit_cases)
next
  case True
  show ?thesis using True sphere_roots_ordered [OF True] assms
    by (auto simp add: sphere_hit_cases sphere_rec_def)
qed

section \<open>Hitables and lists of hitables\<close>

lemma hit_ok_sphere: "hit_ok (Sphere s)"
  unfolding hit_ok_def
proof (intro allI)
  fix r t_min c rec
  show "hit (Sphere s) r t_min c rec = (False, rec) \<or>
      (fst (hit (Sphere s) r t_min c rec) \<and> t_min < rec_t (snd (hit (Sphere s) r t_min c rec)) \<and>
       rec_t (snd (hit (Sphere s) r t_min c rec)) < c \<and>
       rec_p (snd (hit (Sphere s) r t_min c rec)) = ray_at r (rec_t (snd (hit (Sphere s) r t_min c rec))))"
  proof (cases "fst (sphere_hit s r t_min c rec)")
    case True
    then show ?thesis using sphere_hit_range [OF True] sphere_hit_at [OF True] by simp
  next
    case False
    then show ?thesis using sphere_hit_miss [OF False] by (simp add: prod_eq_iff)
  qed
qed

lemma hit_loop_ok:
  assumes "\<forall>x\<in>set objects. hit_ok x"
  shows "hit_loop objects r t_min c temp_rec ha rec = (ha, rec) \<or>
      (fst (hit_loop objects r t_min c temp_rec ha rec) \<and>
       t_min < rec_t (snd (hit_loop objects r t_min c temp_rec ha rec)) \<and>
       rec_t (snd (hit_loop objects r t_min c temp_rec ha rec)) < c \<and>
       rec_p (snd (hit_loop objects r t_min c temp_rec ha rec)) =
         ray_at r (rec_t (snd (hit_loop objects r t_min c temp_rec ha rec))))"
  using assms
proof (induction objects arbitrary: c temp_rec ha rec)
  case Nil
  then show ?case by simp
next
  case (Cons x xs)
  have okx: "hit_ok x" using Cons.prems by simp
  have okxs: "\<forall>y\<in>set xs. hit_ok y" using Cons.prems by simp
  obtain b rc where h: "hit x r t_min c temp_rec = (b, rc)" by (cases "hit x r t_min c temp_rec")
  show ?case
  proof (cases b)
    case True
    have rng: "t_min < rec_t rc \<and> rec_t rc < c \<and> rec_p rc = ray_at r (rec_t rc)"
      using okx h True unfolding hit_ok_def
      by (metis fst_conv snd_conv)
    from Cons.IH [OF okxs, of "rec_t rc" rc True rc] rng h True
    show ?thesis by auto
  next
    case False
    from Cons.IH [OF okxs, of c rc ha rec] h False
    show ?thesis by auto
  qed
qed

lemma hit_ok_all: "hit_ok h"
proof (induction h)
  case (Sphere s)
  show ?case by (rule hit_ok_sphere)
next
  case (Hitable_list xs)
  then have "\<forall>x\<in>set xs. hit_ok x" by simp
  from hit_loop_ok [OF this] show ?case
    unfolding hit_ok_def by simp
qed

lemma hit_range:
  "fst (hit h r t_min c rec) \<Longrightarrow>
     t_min < rec_t (snd (hit h r t_min c rec)) \<and> rec_t (snd (hit h r t_min c rec)) < c"
  using hit_ok_all [of h] unfolding hit_ok_def by (metis fst_conv)

lemma hit_at:
  "fst (hit h r t_min c rec) \<Longrightarrow>
     rec_p (snd (hit h r t_min c rec)) = ray_at r (rec_t (snd (hit h r t_min c rec)))"
  using hit_ok_all [of h] unfolding hit_ok_def by (metis fst_conv)

lemma hit_miss:
  "\<not> fst (hit h r t_min c rec) \<Longrightarrow> snd (hit h r t_min c rec) = rec"
  using hit_ok_all [of h] unfolding hit_ok_def by (metis snd_conv)

lemma hit_loop_miss:
  "\<not> fst (hit_loop objects r t_min c temp_rec ha rec) \<Longrightarrow>
     snd (hit_loop objects r t_min c temp_rec ha rec) = rec"
  using hit_loop_ok [of objects r t_min c temp_rec ha rec] hit_ok_all by (metis snd_conv)

lemma hit_loop_flag:
  "hit_loop objects r t_min c temp_rec ha rec =
     (ha \<or> fst (hit_loop objects r t_min c temp_rec False rec),
      snd (hit_loop objects r t_min c temp_rec False rec))"
proof (induction objects arbitrary: c temp_rec ha rec)
  case Nil
  show ?case by simp
next
  case (Cons x xs)
  obtain b rc where h: "hit x r t_min c temp_rec = (b, rc)" by (cases "hit x r t_min c temp_rec")
  show ?case
  proof (cases b)
    case True
    have f: "fst (hit_loop xs r t_min (rec_t rc) rc True rc)"
      using Cons.IH [of "rec_t rc" rc True rc] by (metis fst_conv)
    have "hit_loop (x # xs) r t_min c temp_rec ha rec = hit_loop xs r t_min (rec_t rc) rc True rc"
      and "hit_loop (x # xs) r t_min c temp_rec False rec = hit_loop xs r t_min (rec_t rc) rc True rc"
      using h True by simp_all
    then show ?thesis using f by (simp add: prod_eq_iff)
  next
    case False
    then show ?thesis using h Cons.IH [of c rc ha rec] by simp
  qed
qed

lemma hit_loop_narrow:
  assumes "\<forall>x\<in>set objects. narrow_ok x" and "c \<le> c'"
  shows "hit_loop objects r t_min c temp_rec ha rec =
     (if fst (hit_loop objects r t_min c' temp_rec' False rec') \<and>
         rec_t (snd (hit_loop objects r t_min c' temp_rec' False rec')) < c
      then (True, snd (hit_loop objects r t_min c' temp_rec' False rec')) else (ha, rec))"
  using assms
proof (induction objects arbitrary: c c' temp_rec temp_rec' ha rec rec')
  case Nil
  show ?case by simp
next
  case (Cons x xs)
  have nx: "narrow_ok x" using Cons.prems by simp
  have nxs: "\<forall>y\<in>set xs. narrow_ok y" using Cons.prems by simp
  have cc: "c \<le> c'" using Cons.prems by simp
  obtain b1 r1 where h1: "hit x r t_min c' temp_rec' = (b1, r1)"
    by (cases "hit x r t_min c' temp_rec'")
  have hx: "hit x r t_min c temp_rec = (if b1 \<and> rec_t r1 < c then (True, r1) else (False, temp_rec))"
    using nx cc h1 unfolding narrow_ok_def by (metis fst_conv snd_conv)
  show ?case
  proof (cases b1)
    case False
    show ?thesis using False h1 hx Cons.IH [OF nxs cc, of temp_rec ha rec r1 rec'] by simp
  next
    case True
    note b1 = True
    have r1c': "rec_t r1 < c'" using hit_range [of x r t_min c' temp_rec'] h1 True by simp
    let ?L = "hit_loop xs r t_min (rec_t r1) r1 False r1"
    have big: "hit_loop xs r t_min (rec_t r1) r1 True r1 = (True, snd ?L)"
      using hit_loop_flag [of xs r t_min "rec_t r1" r1 True r1] by simp
    have tL: "rec_t (snd ?L) \<le> rec_t r1"
      using hit_loop_ok [of xs r t_min "rec_t r1" r1 False r1] hit_ok_all
      by (metis less_imp_le order_refl snd_conv)
    show ?thesis
    proof (cases "rec_t r1 < c")
      case True
      then show ?thesis using b1 h1 hx big tL by simp
    next
      case False
      then have le: "c \<le> rec_t r1" by simp
      have miss: "\<not> fst ?L \<Longrightarrow> snd ?L = r1"
        using hit_loop_miss [of xs r t_min "rec_t r1" r1 False r1] by simp
      show ?thesis
        using b1 False h1 hx big Cons.IH [OF nxs le, of temp_rec ha rec r1 r1] miss
        by (auto split: if_splits)
    qed
  qed
qed

lemma narrow_ok_all: "narrow_ok h"
proof (induction h)
  case (Sphere s)
  show ?case unfolding narrow_ok_def hit.simps using sphere_hit_narrow by blast
next
  case (Hitable_list xs)
  then have "\<forall>x\<in>set xs. narrow_ok x" by simp
  from hit_loop_narrow [OF this] show ?case
    unfolding narrow_ok_def hit.simps by blast
qed

lemma hit_narrow:
  "c \<le> c' \<Longrightarrow> hit h r t_min c rec =
        (if fst (hit h r t_min c' rec') \<and> rec_t (snd (hit h r t_min c' rec')) < c
         then (True, snd (hit h r t_min c' rec')) else (False, rec))"
  using narrow_ok_all [of h] unfolding narrow_ok_def by blast

lemma hit_loop_temp_rec:
  "hit_loop objects r t_min c temp_rec ha rec = hit_loop objects r t_min c temp_rec' ha rec"
  using hit_loop_narrow [of objects c c r t_min temp_rec ha rec default_hit_record rec]
    hit_loop_narrow [of objects c c r t_min temp_rec' ha rec default_hit_record rec]
    narrow_ok_all by simp

lemma hit_rec_irrelevant:
  "fst (hit h r t_min c rec) = fst (hit h r t_min c rec') \<and>
   (fst (hit h r t_min c rec) \<longrightarrow> snd (hit h r t_min c rec) = snd (hit h r t_min c rec'))"
  using hit_narrow [of c c h r t_min rec rec'] hit_range [of h r t_min c rec']
  by (auto split: if_splits)

section \<open>The example inputs evaluated\<close>

lemma ex_near_roots:
  "sphere_disc ex_near ex_ray = 1" "sphere_root1 ex_near ex_ray = 1"
  "sphere_root2 ex_near ex_ray = 3"
  by (simp_all add: sphere_disc_def sphere_root1_def sphere_root2_def ex_near_def ex_ray_def
      dot_def minus_vec3_def)

lemma ex_far_roots:
  "sphere_disc ex_far ex_ray = 1" "sphere_root1 ex_far ex_ray = 4"
  "sphere_root2 ex_far ex_ray = 6"
  by (simp_all add: sphere_disc_def sphere_root1_def sphere_root2_def ex_far_def ex_ray_def
      dot_def minus_vec3_def)

lemma ex_around_roots:
  "sphere_disc ex_around ex_ray = 1" "sphere_root1 ex_around ex_ray = - 1"
  "sphere_root2 ex_around ex_ray = 1"
  by (simp_all add: sphere_disc_def sphere_root1_def sphere_root2_def ex_around_def ex_ray_def
      dot_def minus_vec3_def)

section \<open>The range of a sphere's hit\<close>

text \<open>
  Claim C5. Whenever \<^verbatim>\<open>sphere::hit\<close> returns true, the parameter it stores in the
  record lies strictly between \<open>t_min\<close> and \<open>t_max\<close>. This holds for every ray, sphere
  and pair of bounds; \<open>t_min < t_max\<close> is not needed, since no hit is reported otherwise.
\<close>

theorem sphere_hit_strictly_inside:
  "fst (sphere_hit s r t_min t_max rec) \<Longrightarrow>
     t_min < rec_t (snd (sphere_hit s r t_min t_max rec)) \<and>
     rec_t (snd (sphere_hit s r t_min t_max rec)) < t_max"
  by (rule sphere_hit_range)

theorem sphere_hit_strictly_inside_witness:
  "fst (sphere_hit ex_near ex_ray 0 10 default_hit_record) \<and>
   0 < rec_t (snd (sphere_hit ex_near ex_ray 0 10 default_hit_record)) \<and>
   rec_t (snd (sphere_hit ex_near ex_ray 0 10 default_hit_record)) < 10"
proof -
  have h: "fst (sphere_hit ex_near ex_ray 0 10 default_hit_record)"
    by (simp add: sphere_hit_cases ex_near_roots)
  from sphere_hit_strictly_inside [OF h] h show ?thesis by simp
qed

section \<open>A miss writes nothing\<close>

text \<open>
  Claim C10. When \<^verbatim>\<open>sphere::hit\<close> or \<^verbatim>\<open>hitable_list::hit\<close> returns false, the
  record the caller passed in comes back as it was. The instance below tests the far sphere, and
  a list of two such spheres, against the range \<open>(0, 3)\<close>, which ends before them.
\<close>

theorem miss_leaves_rec_unchanged:
  "(\<not> fst (sphere_hit s r t_min t_max rec) \<longrightarrow> snd (sphere_hit s r t_min t_max rec) = rec) \<and>
   (\<not> fst (hit (Hitable_list objects) r t_min t_max rec) \<longrightarrow>
      snd (hit (Hitable_list objects) r t_min t_max rec) = rec)"
  using sphere_hit_miss [of s r t_min t_max rec]
    hit_miss [of "Hitable_list objects" r t_min t_max rec]
  by blast

theorem miss_leaves_rec_unchanged_witness:
  "\<not> fst (sphere_hit ex_far ex_ray 0 3 (sphere_rec ex_near ex_ray 1)) \<and>
   snd (sphere_hit ex_far ex_ray 0 3 (sphere_rec ex_near ex_ray 1)) = sphere_rec ex_near ex_ray 1 \<and>
   \<not> fst (hit (Hitable_list [Sphere ex_far, Sphere ex_far]) ex_ray 0 3
           (sphere_rec ex_near ex_ray 1)) \<and>
   snd (hit (Hitable_list [Sphere ex_far, Sphere ex_far]) ex_ray 0 3
         (sphere_rec ex_near ex_ray 1)) = sphere_rec ex_near ex_ray 1"
proof -
  have h1: "\<not> fst (sphere_hit ex_far ex_ray 0 3 (sphere_rec ex_near ex_ray 1))"
    by (simp add: sphere_hit_cases ex_far_roots)
  have h2: "\<not> fst (hit (Hitable_list [Sphere ex_far, Sphere ex_far]) ex_ray 0 3
                  (sphere_rec ex_near ex_ray 1))"
    by (simp add: sphere_hit_cases ex_far_roots)
  from miss_leaves_rec_unchanged [of ex_far ex_ray 0 3 "sphere_rec ex_near ex_ray 1"
      "[Sphere ex_far, Sphere ex_far]"] h1 h2
  show ?thesis by blast
qed

section \<open>The closest hit of a list\<close>

text \<open>
  The loop invariant of \<^verbatim>\<open>hitable_list::hit\<close>, in terms of what each object reports
  for the whole range \<open>(t_min, c0)\<close>: when some remaining object has a hit below the
  current \<open>closest_so_far\<close>, the loop ends with the record of such an object, the one
  with the least parameter; otherwise it changes nothing.
\<close>

lemma hit_loop_closest:
  assumes "c \<le> c0"
  shows "(if \<exists>x\<in>set objects. fst (hit x r t_min c0 rec0) \<and> rec_t (snd (hit x r t_min c0 rec0)) < c
     then fst (hit_loop objects r t_min c temp_rec ha rec) \<and>
          (\<exists>x\<in>set objects. fst (hit x r t_min c0 rec0) \<and>
              snd (hit_loop objects r t_min c temp_rec ha rec) = snd (hit x r t_min c0 rec0)) \<and>
          rec_t (snd (hit_loop objects r t_min c temp_rec ha rec)) < c \<and>
          (\<forall>x\<in>set objects. fst (hit x r t_min c0 rec0) \<longrightarrow>
              rec_t (snd (hit_loop objects r t_min c temp_rec ha rec))
                \<le> rec_t (snd (hit x r t_min c0 rec0)))
     else hit_loop objects r t_min c temp_rec ha rec = (ha, rec))"
  using assms
proof (induction objects arbitrary: c temp_rec ha rec)
  case Nil
  show ?case by simp
next
  case (Cons x xs)
  let ?H = "\<lambda>y. hit y r t_min c0 rec0"
  have hx: "hit x r t_min c temp_rec =
      (if fst (?H x) \<and> rec_t (snd (?H x)) < c then (True, snd (?H x)) else (False, temp_rec))"
    using hit_narrow [OF Cons.prems] .
  show ?case
  proof (cases "fst (?H x) \<and> rec_t (snd (?H x)) < c")
    case True
    let ?r1 = "snd (?H x)"
    have step: "hit_loop (x # xs) r t_min c temp_rec ha rec = hit_loop xs r t_min (rec_t ?r1) ?r1 True ?r1"
      using hx True by simp
    have le: "rec_t ?r1 \<le> c0" using True Cons.prems by simp
    note IH = Cons.IH [OF le, of ?r1 True ?r1]
    show ?thesis
    proof (cases "\<exists>y\<in>set xs. fst (?H y) \<and> rec_t (snd (?H y)) < rec_t ?r1")
      case ex: True
      with IH have a: "fst (hit_loop xs r t_min (rec_t ?r1) ?r1 True ?r1)"
        and b: "\<exists>y\<in>set xs. fst (?H y) \<and> snd (hit_loop xs r t_min (rec_t ?r1) ?r1 True ?r1) = snd (?H y)"
        and c: "rec_t (snd (hit_loop xs r t_min (rec_t ?r1) ?r1 True ?r1)) < rec_t ?r1"
        and d: "\<forall>y\<in>set xs. fst (?H y) \<longrightarrow> rec_t (snd (hit_loop xs r t_min (rec_t ?r1) ?r1 True ?r1)) \<le> rec_t (snd (?H y))"
        by simp_all
      show ?thesis using True a b c d unfolding step by auto
    next
      case nex: False
      with IH have e: "hit_loop xs r t_min (rec_t ?r1) ?r1 True ?r1 = (True, ?r1)" by simp
      have d: "\<forall>y\<in>set xs. fst (?H y) \<longrightarrow> rec_t ?r1 \<le> rec_t (snd (?H y))"
        using nex by auto
      show ?thesis using True d unfolding step e by auto
    qed
  next
    case False
    have step: "hit_loop (x # xs) r t_min c temp_rec ha rec = hit_loop xs r t_min c temp_rec ha rec"
      using hx False by simp
    note IH = Cons.IH [OF Cons.prems, of temp_rec ha rec]
    show ?thesis
    proof (cases "\<exists>y\<in>set xs. fst (?H y) \<and> rec_t (snd (?H y)) < c")
      case ex: True
      with IH have a: "fst (hit_loop xs r t_min c temp_rec ha rec)"
        and b: "\<exists>y\<in>set xs. fst (?H y) \<and> snd (hit_loop xs r t_min c temp_rec ha rec) = snd (?H y)"
        and c: "rec_t (snd (hit_loop xs r t_min c temp_rec ha rec)) < c"
        and d: "\<forall>y\<in>set xs. fst (?H y) \<longrightarrow> rec_t (snd (hit_loop xs r t_min c temp_rec ha rec)) \<le> rec_t (snd (?H y))"
        by simp_all
      have dx: "fst (?H x) \<longrightarrow> rec_t (snd (hit_loop xs r t_min c temp_rec ha rec)) \<le> rec_t (snd (?H x))"
        using False c by auto
      show ?thesis using ex a b c d dx unfolding step by auto
    next
      case nex: False
      with IH have e: "hit_loop xs r t_min c temp_rec ha rec = (ha, rec)" by simp
      show ?thesis using False nex unfolding step e by auto
    qed
  qed
qed

lemma hit_list_closest:
  "(fst (hit (Hitable_list objects) r t_min t_max rec) \<longleftrightarrow>
      (\<exists>x\<in>set objects. fst (hit x r t_min t_max rec0))) \<and>
   (fst (hit (Hitable_list objects) r t_min t_max rec) \<longrightarrow>
      (\<exists>x\<in>set objects. hit x r t_min t_max rec0 =
          (True, snd (hit (Hitable_list objects) r t_min t_max rec))) \<and>
      (\<forall>x\<in>set objects. fst (hit x r t_min t_max rec0) \<longrightarrow>
          rec_t (snd (hit (Hitable_list objects) r t_min t_max rec))
            \<le> rec_t (snd (hit x r t_min t_max rec0))))"
proof -
  let ?H = "\<lambda>y. hit y r t_min t_max rec0"
  let ?L = "hit_loop objects r t_min t_max default_hit_record False rec"
  have eq: "(\<exists>x\<in>set objects. fst (?H x) \<and> rec_t (snd (?H x)) < t_max) = (\<exists>x\<in>set objects. fst (?H x))"
    using hit_range [of _ r t_min t_max rec0] by blast
  note L = hit_loop_closest [of t_max t_max objects r t_min rec0 default_hit_record False rec, unfolded eq]
  show ?thesis
  proof (cases "\<exists>x\<in>set objects. fst (?H x)")
    case True
    with L have a: "fst ?L"
      and b: "\<exists>x\<in>set objects. fst (?H x) \<and> snd ?L = snd (?H x)"
      and d: "\<forall>x\<in>set objects. fst (?H x) \<longrightarrow> rec_t (snd ?L) \<le> rec_t (snd (?H x))"
      by simp_all
    from b have b': "\<exists>x\<in>set objects. ?H x = (True, snd ?L)"
      by (metis prod.collapse)
    show ?thesis using True a b' d by simp
  next
    case False
    with L have "?L = (False, rec)" by simp
    then show ?thesis using False by simp
  qed
qed

text \<open>
  The same invariant with the position of the object in the list: the loop ends with the
  record of the first object, in list order, among those with the least parameter. Every
  object before it is missed or hit at a strictly larger parameter.
\<close>

lemma hit_loop_first:
  assumes "c \<le> c0"
  shows "(if \<exists>x\<in>set objects. fst (hit x r t_min c0 rec0) \<and> rec_t (snd (hit x r t_min c0 rec0)) < c
     then \<exists>before obj after. objects = before @ obj # after \<and>
            fst (hit obj r t_min c0 rec0) \<and>
            rec_t (snd (hit obj r t_min c0 rec0)) < c \<and>
            hit_loop objects r t_min c temp_rec ha rec = (True, snd (hit obj r t_min c0 rec0)) \<and>
            (\<forall>y\<in>set before. fst (hit y r t_min c0 rec0) \<longrightarrow>
               rec_t (snd (hit obj r t_min c0 rec0)) < rec_t (snd (hit y r t_min c0 rec0))) \<and>
            (\<forall>y\<in>set after. fst (hit y r t_min c0 rec0) \<longrightarrow>
               rec_t (snd (hit obj r t_min c0 rec0)) \<le> rec_t (snd (hit y r t_min c0 rec0)))
     else hit_loop objects r t_min c temp_rec ha rec = (ha, rec))"
  using assms
proof (induction objects arbitrary: c temp_rec ha rec)
  case Nil
  show ?case by simp
next
  case (Cons x xs)
  let ?H = "\<lambda>y. hit y r t_min c0 rec0"
  let ?T = "\<lambda>y. rec_t (snd (hit y r t_min c0 rec0))"
  have hx: "hit x r t_min c temp_rec =
      (if fst (?H x) \<and> ?T x < c then (True, snd (?H x)) else (False, temp_rec))"
    using hit_narrow [OF Cons.prems] .
  show ?case
  proof (cases "fst (?H x) \<and> ?T x < c")
    case True
    let ?r1 = "snd (?H x)"
    have step: "hit_loop (x # xs) r t_min c temp_rec ha rec = hit_loop xs r t_min (?T x) ?r1 True ?r1"
      using hx True by simp
    have le: "?T x \<le> c0" using True Cons.prems by simp
    note IH = Cons.IH [OF le, of ?r1 True ?r1]
    have ex: "\<exists>y\<in>set (x # xs). fst (?H y) \<and> ?T y < c" using True by auto
    show ?thesis
    proof (cases "\<exists>y\<in>set xs. fst (?H y) \<and> ?T y < ?T x")
      case later: True
      with IH obtain before obj after where sp: "xs = before @ obj # after"
        and f: "fst (?H obj)" and t: "?T obj < ?T x"
        and res: "hit_loop xs r t_min (?T x) ?r1 True ?r1 = (True, snd (?H obj))"
        and b: "\<forall>y\<in>set before. fst (?H y) \<longrightarrow> ?T obj < ?T y"
        and a: "\<forall>y\<in>set after. fst (?H y) \<longrightarrow> ?T obj \<le> ?T y"
        by auto
      have sp': "x # xs = (x # before) @ obj # after" using sp by simp
      have b': "\<forall>y\<in>set (x # before). fst (?H y) \<longrightarrow> ?T obj < ?T y" using b t by simp
      have tc: "?T obj < c" using t True by simp
      have "\<exists>before obj after. x # xs = before @ obj # after \<and> fst (?H obj) \<and> ?T obj < c \<and>
            hit_loop (x # xs) r t_min c temp_rec ha rec = (True, snd (?H obj)) \<and>
            (\<forall>y\<in>set before. fst (?H y) \<longrightarrow> ?T obj < ?T y) \<and>
            (\<forall>y\<in>set after. fst (?H y) \<longrightarrow> ?T obj \<le> ?T y)"
        using sp' f tc res b' a unfolding step by blast
      then show ?thesis using ex by (simp only: if_True)
    next
      case none: False
      with IH have res: "hit_loop xs r t_min (?T x) ?r1 True ?r1 = (True, ?r1)" by simp
      have a: "\<forall>y\<in>set xs. fst (?H y) \<longrightarrow> ?T x \<le> ?T y" using none by auto
      have sp': "x # xs = [] @ x # xs" by simp
      have b': "\<forall>y\<in>set []. fst (?H y) \<longrightarrow> ?T x < ?T y" by simp
      have "\<exists>before obj after. x # xs = before @ obj # after \<and> fst (?H obj) \<and> ?T obj < c \<and>
            hit_loop (x # xs) r t_min c temp_rec ha rec = (True, snd (?H obj)) \<and>
            (\<forall>y\<in>set before. fst (?H y) \<longrightarrow> ?T obj < ?T y) \<and>
            (\<forall>y\<in>set after. fst (?H y) \<longrightarrow> ?T obj \<le> ?T y)"
        using sp' True res b' a unfolding step by blast
      then show ?thesis using ex by (simp only: if_True)
    qed
  next
    case False
    have step: "hit_loop (x # xs) r t_min c temp_rec ha rec = hit_loop xs r t_min c temp_rec ha rec"
      using hx False by simp
    note IH = Cons.IH [OF Cons.prems, of temp_rec ha rec]
    show ?thesis
    proof (cases "\<exists>y\<in>set xs. fst (?H y) \<and> ?T y < c")
      case later: True
      then have ex: "\<exists>y\<in>set (x # xs). fst (?H y) \<and> ?T y < c" by auto
      from later IH obtain before obj after where sp: "xs = before @ obj # after"
        and f: "fst (?H obj)" and t: "?T obj < c"
        and res: "hit_loop xs r t_min c temp_rec ha rec = (True, snd (?H obj))"
        and b: "\<forall>y\<in>set before. fst (?H y) \<longrightarrow> ?T obj < ?T y"
        and a: "\<forall>y\<in>set after. fst (?H y) \<longrightarrow> ?T obj \<le> ?T y"
        by auto
      have sp': "x # xs = (x # before) @ obj # after" using sp by simp
      have "fst (?H x) \<longrightarrow> ?T obj < ?T x" using False t by auto
      then have b': "\<forall>y\<in>set (x # before). fst (?H y) \<longrightarrow> ?T obj < ?T y" using b by simp
      have "\<exists>before obj after. x # xs = before @ obj # after \<and> fst (?H obj) \<and> ?T obj < c \<and>
            hit_loop (x # xs) r t_min c temp_rec ha rec = (True, snd (?H obj)) \<and>
            (\<forall>y\<in>set before. fst (?H y) \<longrightarrow> ?T obj < ?T y) \<and>
            (\<forall>y\<in>set after. fst (?H y) \<longrightarrow> ?T obj \<le> ?T y)"
        using sp' f t res b' a unfolding step by blast
      then show ?thesis using ex by (simp only: if_True)
    next
      case none: False
      then have nex: "\<not> (\<exists>y\<in>set (x # xs). fst (?H y) \<and> ?T y < c)" using False by auto
      from none IH have "hit_loop xs r t_min c temp_rec ha rec = (ha, rec)" by simp
      then show ?thesis using nex unfolding step by (simp only: if_False)
    qed
  qed
qed

lemma hit_list_first:
  assumes "fst (hit (Hitable_list objects) r t_min t_max rec)"
  shows "\<exists>before obj after. objects = before @ obj # after \<and>
            hit obj r t_min t_max rec0 = (True, snd (hit (Hitable_list objects) r t_min t_max rec)) \<and>
            (\<forall>y\<in>set before. fst (hit y r t_min t_max rec0) \<longrightarrow>
               rec_t (snd (hit (Hitable_list objects) r t_min t_max rec))
                 < rec_t (snd (hit y r t_min t_max rec0))) \<and>
            (\<forall>y\<in>set after. fst (hit y r t_min t_max rec0) \<longrightarrow>
               rec_t (snd (hit (Hitable_list objects) r t_min t_max rec))
                 \<le> rec_t (snd (hit y r t_min t_max rec0)))"
proof -
  let ?H = "\<lambda>y. hit y r t_min t_max rec0"
  let ?L = "hit_loop objects r t_min t_max default_hit_record False rec"
  have L: "hit (Hitable_list objects) r t_min t_max rec = ?L" by simp
  have eq: "(\<exists>x\<in>set objects. fst (?H x) \<and> rec_t (snd (?H x)) < t_max) = (\<exists>x\<in>set objects. fst (?H x))"
    using hit_range [of _ r t_min t_max rec0] by blast
  have ex: "\<exists>x\<in>set objects. fst (?H x)"
    using assms hit_list_closest [of objects r t_min t_max rec rec0] by blast
  from hit_loop_first [of t_max t_max objects r t_min rec0 default_hit_record False rec, unfolded eq] ex
  obtain before obj after where sp: "objects = before @ obj # after"
    and f: "fst (?H obj)" and res: "?L = (True, snd (?H obj))"
    and b: "\<forall>y\<in>set before. fst (?H y) \<longrightarrow> rec_t (snd (?H obj)) < rec_t (snd (?H y))"
    and a: "\<forall>y\<in>set after. fst (?H y) \<longrightarrow> rec_t (snd (?H obj)) \<le> rec_t (snd (?H y))"
    by auto
  have s: "snd ?L = snd (?H obj)" using res by simp
  have h: "?H obj = (True, snd ?L)" using f s by (simp add: prod_eq_iff)
  show ?thesis unfolding L using sp h b a unfolding s [symmetric] by blast
qed

lemma ex_hits:
  "sphere_hit ex_near ex_ray 0 10 rec = (True, sphere_rec ex_near ex_ray 1)"
  "sphere_hit ex_far ex_ray 0 10 rec = (True, sphere_rec ex_far ex_ray 4)"
  "sphere_hit ex_around ex_ray 0 10 rec = (True, sphere_rec ex_around ex_ray 1)"
  by (simp_all add: sphere_hit_cases ex_near_roots ex_far_roots ex_around_roots)

lemma ex_recs:
  "sphere_rec ex_near ex_ray 1 = \<lparr>rec_t = 1, rec_p = vec3 0 0 (- 1), rec_normal = vec3 0 0 1,
        rec_mat_ptr = Some (Lambertian (vec3 0.8 0.3 0.3))\<rparr>"
  "sphere_rec ex_around ex_ray 1 = \<lparr>rec_t = 1, rec_p = vec3 0 0 (- 1), rec_normal = vec3 0 0 (- 1),
        rec_mat_ptr = Some (Dielectric 1.5)\<rparr>"
  by (simp_all add: sphere_rec_def ray_at_def ex_near_def ex_around_def ex_ray_def plus_vec3_def
      minus_vec3_def smul_def divs_def)

lemma ex_hits_narrowed:
  "sphere_hit ex_near ex_ray 0 1 rec = (False, rec)"
  "sphere_hit ex_around ex_ray 0 1 rec = (False, rec)"
  by (simp_all add: sphere_hit_cases ex_near_roots ex_around_roots)

text \<open>
  Claim C1. For every ray, every range and every list of hitables,
  \<^verbatim>\<open>hitable_list::hit\<close> returns true exactly when one of the objects reports a hit
  for the range \<open>(t_min, t_max)\<close>; the record it then returns is the record one of the
  objects reports for that range, and its parameter is at most the parameter of every
  object's hit for that range. (What an object reports does not depend on the record
  \<open>rec0\<close> passed to it.) The instance below is the list of the far and the near sphere, in this
  order: the list reports the near one.
\<close>

theorem hitable_list_hit_closest:
  "(fst (hit (Hitable_list objects) r t_min t_max rec) \<longleftrightarrow>
      (\<exists>x\<in>set objects. fst (hit x r t_min t_max rec0))) \<and>
   (fst (hit (Hitable_list objects) r t_min t_max rec) \<longrightarrow>
      (\<exists>x\<in>set objects. hit x r t_min t_max rec0 =
          (True, snd (hit (Hitable_list objects) r t_min t_max rec))) \<and>
      (\<forall>x\<in>set objects. fst (hit x r t_min t_max rec0) \<longrightarrow>
          rec_t (snd (hit (Hitable_list objects) r t_min t_max rec))
            \<le> rec_t (snd (hit x r t_min t_max rec0))))"
  by (rule hit_list_closest)

theorem hitable_list_hit_closest_witness:
  "fst (hit (Hitable_list [Sphere ex_far, Sphere ex_near]) ex_ray 0 10 default_hit_record) \<and>
   rec_t (snd (hit (Hitable_list [Sphere ex_far, Sphere ex_near]) ex_ray 0 10 default_hit_record))
     \<le> 1 \<and>
   rec_t (snd (hit (Sphere ex_far) ex_ray 0 10 default_hit_record)) = 4 \<and>
   rec_t (snd (hit (Sphere ex_near) ex_ray 0 10 default_hit_record)) = 1"
proof -
  have n: "fst (hit (Sphere ex_near) ex_ray 0 10 default_hit_record)"
    and tn: "rec_t (snd (hit (Sphere ex_near) ex_ray 0 10 default_hit_record)) = 1"
    and tf: "rec_t (snd (hit (Sphere ex_far) ex_ray 0 10 default_hit_record)) = 4"
    by (simp_all add: ex_hits sphere_rec_def)
  have m: "Sphere ex_near \<in> set [Sphere ex_far, Sphere ex_near]" by simp
  from hitable_list_hit_closest [of "[Sphere ex_far, Sphere ex_near]" ex_ray 0 10
      default_hit_record default_hit_record] n m
  have "fst (hit (Hitable_list [Sphere ex_far, Sphere ex_near]) ex_ray 0 10 default_hit_record)"
    and "rec_t (snd (hit (Hitable_list [Sphere ex_far, Sphere ex_near]) ex_ray 0 10 default_hit_record))
     \<le> rec_t (snd (hit (Sphere ex_near) ex_ray 0 10 default_hit_record))"
    by blast+
  then show ?thesis using tn tf by simp
qed

section \<open>The order of the objects\<close>

text \<open>
  Claim C8 says that the whole record is the same for every order of the objects. It is
  not: the acceptance test \<^verbatim>\<open>temp < t_max\<close> is strict, so of two objects hit at the
  same parameter the one inserted first keeps the record. The near sphere and the sphere
  around the origin touch at \<open>(0, 0, -1)\<close>, where the example ray meets both at
  parameter 1; they have opposite normals there and different materials.
\<close>

theorem hitable_list_hit_order_counterexample:
  "mset [Sphere ex_near, Sphere ex_around] = mset [Sphere ex_around, Sphere ex_near] \<and>
   snd (hit (Hitable_list [Sphere ex_near, Sphere ex_around]) ex_ray 0 10 default_hit_record)
     = \<lparr>rec_t = 1, rec_p = vec3 0 0 (- 1), rec_normal = vec3 0 0 1,
        rec_mat_ptr = Some (Lambertian (vec3 0.8 0.3 0.3))\<rparr> \<and>
   snd (hit (Hitable_list [Sphere ex_around, Sphere ex_near]) ex_ray 0 10 default_hit_record)
     = \<lparr>rec_t = 1, rec_p = vec3 0 0 (- 1), rec_normal = vec3 0 0 (- 1),
        rec_mat_ptr = Some (Dielectric 1.5)\<rparr> \<and>
   snd (hit (Hitable_list [Sphere ex_near, Sphere ex_around]) ex_ray 0 10 default_hit_record)
     \<noteq> snd (hit (Hitable_list [Sphere ex_around, Sphere ex_near]) ex_ray 0 10 default_hit_record)"
  by (simp add: ex_hits ex_recs ex_hits_narrowed)

text \<open>
  Claim C8, amended. For every permutation of the objects the result of
  \<^verbatim>\<open>hitable_list::hit\<close>, its parameter \<open>t\<close> and its point \<open>p\<close> are the same; the whole
  record (with normal and material) is the same whenever any two objects that are hit at
  the same parameter report the same record. In every case the record of a hit is the
  one reported by the first object, in insertion order, among those hit at the least
  parameter: the objects inserted before it are missed or hit at a strictly larger
  parameter, the ones after it are missed or hit at a parameter that is not smaller.
\<close>

theorem hitable_list_hit_permutation:
  assumes "mset xs = mset ys"
  shows "fst (hit (Hitable_list xs) r t_min t_max rec) = fst (hit (Hitable_list ys) r t_min t_max rec) \<and>
     rec_t (snd (hit (Hitable_list xs) r t_min t_max rec))
       = rec_t (snd (hit (Hitable_list ys) r t_min t_max rec)) \<and>
     rec_p (snd (hit (Hitable_list xs) r t_min t_max rec))
       = rec_p (snd (hit (Hitable_list ys) r t_min t_max rec)) \<and>
     ((\<forall>a\<in>set xs. \<forall>b\<in>set xs.
          fst (hit a r t_min t_max rec) \<and> fst (hit b r t_min t_max rec) \<and>
          rec_t (snd (hit a r t_min t_max rec)) = rec_t (snd (hit b r t_min t_max rec))
          \<longrightarrow> snd (hit a r t_min t_max rec) = snd (hit b r t_min t_max rec))
      \<longrightarrow> hit (Hitable_list xs) r t_min t_max rec = hit (Hitable_list ys) r t_min t_max rec) \<and>
     (fst (hit (Hitable_list xs) r t_min t_max rec) \<longrightarrow>
        (\<exists>before obj after. xs = before @ obj # after \<and>
            hit obj r t_min t_max rec = (True, snd (hit (Hitable_list xs) r t_min t_max rec)) \<and>
            (\<forall>y\<in>set before. fst (hit y r t_min t_max rec) \<longrightarrow>
               rec_t (snd (hit (Hitable_list xs) r t_min t_max rec))
                 < rec_t (snd (hit y r t_min t_max rec))) \<and>
            (\<forall>y\<in>set after. fst (hit y r t_min t_max rec) \<longrightarrow>
               rec_t (snd (hit (Hitable_list xs) r t_min t_max rec))
                 \<le> rec_t (snd (hit y r t_min t_max rec)))))"
proof -
  let ?H = "\<lambda>y. hit y r t_min t_max rec"
  let ?X = "hit (Hitable_list xs) r t_min t_max rec"
  let ?Y = "hit (Hitable_list ys) r t_min t_max rec"
  have s: "set xs = set ys" using assms by (rule mset_eq_setD)
  note X = hit_list_closest [of xs r t_min t_max rec rec]
  note Y = hit_list_closest [of ys r t_min t_max rec rec]
  have flag: "fst ?X = fst ?Y" using X Y s by simp
  have first: "fst ?X \<longrightarrow>
        (\<exists>before obj after. xs = before @ obj # after \<and> ?H obj = (True, snd ?X) \<and>
            (\<forall>y\<in>set before. fst (?H y) \<longrightarrow> rec_t (snd ?X) < rec_t (snd (?H y))) \<and>
            (\<forall>y\<in>set after. fst (?H y) \<longrightarrow> rec_t (snd ?X) \<le> rec_t (snd (?H y))))"
    using hit_list_first [of xs r t_min t_max rec rec] by blast
  have rest: "fst ?X = fst ?Y \<and> rec_t (snd ?X) = rec_t (snd ?Y) \<and> rec_p (snd ?X) = rec_p (snd ?Y) \<and>
     ((\<forall>a\<in>set xs. \<forall>b\<in>set xs. fst (?H a) \<and> fst (?H b) \<and>
            rec_t (snd (?H a)) = rec_t (snd (?H b)) \<longrightarrow> snd (?H a) = snd (?H b))
      \<longrightarrow> ?X = ?Y)"
  proof (cases "fst ?X")
    case False
    then have "snd ?X = rec" "snd ?Y = rec"
      using flag hit_miss [of "Hitable_list xs" r t_min t_max rec]
        hit_miss [of "Hitable_list ys" r t_min t_max rec] by blast+
    then show ?thesis using flag by (simp add: prod_eq_iff)
  next
    case True
    then have fy: "fst ?Y" using flag by simp
    from X True obtain a where a: "a \<in> set xs" "?H a = (True, snd ?X)" by blast
    from Y fy obtain b where b: "b \<in> set ys" "?H b = (True, snd ?Y)" by blast
    have leX: "\<forall>x\<in>set xs. fst (?H x) \<longrightarrow> rec_t (snd ?X) \<le> rec_t (snd (?H x))"
      using X True by blast
    have leY: "\<forall>x\<in>set ys. fst (?H x) \<longrightarrow> rec_t (snd ?Y) \<le> rec_t (snd (?H x))"
      using Y fy by blast
    have ha: "fst (?H a)" "snd (?H a) = snd ?X" using a(2) by simp_all
    have hb: "fst (?H b)" "snd (?H b) = snd ?Y" using b(2) by simp_all
    have "rec_t (snd ?X) \<le> rec_t (snd ?Y)" using leX b(1) s hb by metis
    moreover have "rec_t (snd ?Y) \<le> rec_t (snd ?X)" using leY a(1) s ha by metis
    ultimately have t: "rec_t (snd ?X) = rec_t (snd ?Y)" by simp
    have p: "rec_p (snd ?X) = rec_p (snd ?Y)"
      using hit_at [OF True] hit_at [OF fy] t by simp
    have "snd ?X = snd ?Y"
      if "\<forall>a\<in>set xs. \<forall>b\<in>set xs. fst (?H a) \<and> fst (?H b) \<and>
            rec_t (snd (?H a)) = rec_t (snd (?H b)) \<longrightarrow> snd (?H a) = snd (?H b)"
    proof -
      have "fst (?H a) \<and> fst (?H b) \<and> rec_t (snd (?H a)) = rec_t (snd (?H b))"
        using ha hb t by simp
      with that a(1) b(1) s have "snd (?H a) = snd (?H b)" by blast
      then show ?thesis using ha hb by simp
    qed
    then show ?thesis using flag t p by (auto simp add: prod_eq_iff)
  qed
  from rest first show ?thesis by blast
qed

theorem hitable_list_hit_permutation_witness:
  "mset [Sphere ex_far, Sphere ex_near] = mset [Sphere ex_near, Sphere ex_far] \<and>
   hit (Hitable_list [Sphere ex_far, Sphere ex_near]) ex_ray 0 10 default_hit_record
     = hit (Hitable_list [Sphere ex_near, Sphere ex_far]) ex_ray 0 10 default_hit_record \<and>
   fst (hit (Hitable_list [Sphere ex_far, Sphere ex_near]) ex_ray 0 10 default_hit_record)"
proof -
  have m: "mset [Sphere ex_far, Sphere ex_near] = mset [Sphere ex_near, Sphere ex_far]"
    by simp
  have ties: "\<forall>a\<in>set [Sphere ex_far, Sphere ex_near]. \<forall>b\<in>set [Sphere ex_far, Sphere ex_near].
          fst (hit a ex_ray 0 10 default_hit_record) \<and> fst (hit b ex_ray 0 10 default_hit_record) \<and>
          rec_t (snd (hit a ex_ray 0 10 default_hit_record)) = rec_t (snd (hit b ex_ray 0 10 default_hit_record))
          \<longrightarrow> snd (hit a ex_ray 0 10 default_hit_record) = snd (hit b ex_ray 0 10 default_hit_record)"
    by (simp add: ex_hits sphere_rec_def)
  have f: "fst (hit (Hitable_list [Sphere ex_far, Sphere ex_near]) ex_ray 0 10 default_hit_record)"
    by (simp add: sphere_hit_cases ex_near_roots ex_far_roots sphere_rec_def)
  from hitable_list_hit_permutation [OF m, of ex_ray 0 10 default_hit_record] ties m f
  show ?thesis by blast
qed

section \<open>Reflection\<close>

lemma length_vec3_one: "length_vec3 n = 1 \<longleftrightarrow> dot n n = 1"
  by (simp add: length_vec3_def squared_length_def dot_def)

lemma dot_reflect:
  assumes "dot n n = 1"
  shows "dot (reflect v n) n = - dot v n"
proof -
  have "dot (reflect v n) n = dot v n - 2 * dot v n * dot n n"
    by (simp add: reflect_def dot_def minus_vec3_def smul_def algebra_simps)
  then show ?thesis using assms by simp
qed

text \<open>
  Claim C9. For every vector \<open>v\<close> and every normal \<open>n\<close> of unit length, reflecting
  twice about \<open>n\<close> gives \<open>v\<close> back (\<^verbatim>\<open>metal::reflect\<close> and
  \<^verbatim>\<open>dielectric::reflect\<close> are the same function).
\<close>

theorem reflect_twice:
  assumes "length_vec3 n = 1"
  shows "reflect (reflect v n) n = v"
proof -
  have n: "dot n n = 1" using assms by (simp add: length_vec3_one)
  have "reflect (reflect v n) n = reflect v n - smul (2 * (- dot v n)) n"
    using dot_reflect [OF n, of v] by (simp add: reflect_def [of "reflect v n"])
  also have "\<dots> = v"
    by (cases v) (simp add: reflect_def minus_vec3_def smul_def)
  finally show ?thesis .
qed

theorem reflect_twice_witness:
  "length_vec3 (vec3 0 0 1) = 1 \<and> reflect (reflect (vec3 1 2 3) (vec3 0 0 1)) (vec3 0 0 1) = vec3 1 2 3"
proof -
  have h: "length_vec3 (vec3 0 0 1) = 1" by (simp add: length_vec3_def squared_length_def)
  from reflect_twice [OF h, of "vec3 1 2 3"] h show ?thesis by simp
qed

section \<open>The hit point lies on the sphere\<close>

lemma quadratic_root:
  fixes a b c k :: real
  assumes a: "a > 0" and D: "b * b - a * c \<ge> 0"
    and k: "k = (- b - sqrt (b * b - a * c)) / a \<or> k = (- b + sqrt (b * b - a * c)) / a"
  shows "a * k * k + 2 * b * k + c = 0"
proof -
  let ?D = "b * b - a * c"
  have sq: "sqrt ?D * sqrt ?D = ?D" using D by simp
  from k have "a * k + b = - sqrt ?D \<or> a * k + b = sqrt ?D"
    using a by (auto simp add: field_simps)
  then have "(a * k + b) * (a * k + b) = ?D" using sq by auto
  then have "a * (a * k * k + 2 * b * k + c) = 0" by (simp add: algebra_simps)
  then show ?thesis using a by simp
qed

lemma squared_length_on_sphere:
  assumes "dot (orig r - center s) (dir r) * k * 2 + dot (dir r) (dir r) * k * k
      + (dot (orig r - center s) (orig r - center s) - radius s * radius s) = 0"
  shows "squared_length (ray_at r k - center s) = radius s * radius s"
proof -
  have "squared_length (ray_at r k - center s) =
      dot (orig r - center s) (orig r - center s) + dot (orig r - center s) (dir r) * k * 2
        + dot (dir r) (dir r) * k * k"
    by (simp add: squared_length_def ray_at_def dot_def plus_vec3_def minus_vec3_def smul_def
        algebra_simps)
  then show ?thesis using assms by simp
qed

lemma sphere_root_on_sphere:
  assumes D: "sphere_disc s r > 0" and k: "k = sphere_root1 s r \<or> k = sphere_root2 s r"
  shows "squared_length (ray_at r k - center s) = radius s * radius s"
proof -
  let ?a = "dot (dir r) (dir r)"
  let ?b = "dot (orig r - center s) (dir r)"
  let ?c = "dot (orig r - center s) (orig r - center s) - radius s * radius s"
  have a: "?a > 0" using sphere_disc_pos_dir [OF D] .
  have D': "?b * ?b - ?a * ?c \<ge> 0" using D by (simp add: sphere_disc_def)
  have k': "k = (- ?b - sqrt (?b * ?b - ?a * ?c)) / ?a \<or> k = (- ?b + sqrt (?b * ?b - ?a * ?c)) / ?a"
    using k by (simp add: sphere_root1_def sphere_root2_def sphere_disc_def)
  from quadratic_root [OF a D' k'] have "?a * k * k + 2 * ?b * k + ?c = 0" .
  then have "?b * k * 2 + ?a * k * k + ?c = 0" by (simp add: algebra_simps)
  then show ?thesis by (rule squared_length_on_sphere)
qed

lemma squared_length_divs:
  "squared_length (divs v k) = squared_length v / (k * k)"
  by (simp add: squared_length_def divs_def add_divide_distrib)

lemma sphere_hit_root:
  assumes "fst (sphere_hit s r t_min t_max rec)"
  shows "sphere_disc s r > 0 \<and>
     (snd (sphere_hit s r t_min t_max rec) = sphere_rec s r (sphere_root1 s r) \<or>
      snd (sphere_hit s r t_min t_max rec) = sphere_rec s r (sphere_root2 s r))"
  using assms by (simp add: sphere_hit_cases split: if_splits)

text \<open>
  Claim C6. For every sphere of non-zero radius, whenever \<^verbatim>\<open>sphere::hit\<close> returns
  true the normal in the record has length 1 and the point in the record is at distance
  \<open>\<bar>radius\<bar>\<close> from the centre. A ray whose direction is the zero vector is never
  reported as a hit (lemma \<open>sphere_disc_pos_dir\<close>), so the claim's condition on the
  direction need not be assumed.
\<close>

theorem sphere_hit_on_sphere:
  assumes "radius s \<noteq> 0" and "fst (sphere_hit s r t_min t_max rec)"
  shows "length_vec3 (rec_normal (snd (sphere_hit s r t_min t_max rec))) = 1 \<and>
         length_vec3 (rec_p (snd (sphere_hit s r t_min t_max rec)) - center s) = \<bar>radius s\<bar>"
proof -
  from sphere_hit_root [OF assms(2)] obtain k where D: "sphere_disc s r > 0"
    and k: "k = sphere_root1 s r \<or> k = sphere_root2 s r"
    and res: "snd (sphere_hit s r t_min t_max rec) = sphere_rec s r k"
    by blast
  have sl: "squared_length (ray_at r k - center s) = radius s * radius s"
    using sphere_root_on_sphere [OF D k] .
  have "squared_length (divs (ray_at r k - center s) (radius s)) = 1"
    using sl assms(1) by (simp add: squared_length_divs)
  then have n: "length_vec3 (rec_normal (sphere_rec s r k)) = 1"
    by (simp add: length_vec3_def sphere_rec_def)
  have p: "length_vec3 (rec_p (sphere_rec s r k) - center s) = \<bar>radius s\<bar>"
    using sl by (simp add: length_vec3_def sphere_rec_def)
  show ?thesis using n p res by simp
qed

theorem sphere_hit_on_sphere_witness:
  "radius ex_near \<noteq> 0 \<and> fst (sphere_hit ex_near ex_ray 0 10 default_hit_record) \<and>
   length_vec3 (rec_normal (snd (sphere_hit ex_near ex_ray 0 10 default_hit_record))) = 1 \<and>
   length_vec3 (rec_p (snd (sphere_hit ex_near ex_ray 0 10 default_hit_record)) - center ex_near)
     = \<bar>radius ex_near\<bar>"
proof -
  have h1: "radius ex_near \<noteq> 0" by (simp add: ex_near_def)
  have h2: "fst (sphere_hit ex_near ex_ray 0 10 default_hit_record)" by (simp add: ex_hits)
  from sphere_hit_on_sphere [OF h1 h2] h1 h2 show ?thesis by simp
qed

section \<open>The camera's rays\<close>

lemma dot_self_eq_0: "dot d d = 0 \<longleftrightarrow> d = vec3 0 0 0"
proof
  assume h: "dot d d = 0"
  have "e0 d * e0 d + e1 d * e1 d + e2 d * e2 d = 0" using h by (simp add: dot_def)
  then have "e0 d = 0 \<and> e1 d = 0 \<and> e2 d = 0"
    by (smt (verit) mult_eq_0_iff zero_le_square add_nonneg_eq_0_iff add_nonneg_nonneg)
  then show "d = vec3 0 0 0" by (cases d) simp
next
  assume "d = vec3 0 0 0"
  then show "dot d d = 0" by (simp add: dot_def)
qed

lemma dot_unit_vector:
  assumes "d \<noteq> vec3 0 0 0"
  shows "dot (unit_vector d) (unit_vector d) = 1"
proof -
  have pos: "dot d d > 0" using assms dot_self_eq_0 [of d] dot_self_nonneg [of d] by simp
  have l: "length_vec3 d = sqrt (dot d d)"
    by (simp add: length_vec3_def squared_length_def dot_def)
  have "dot (divs d (sqrt (dot d d))) (divs d (sqrt (dot d d)))
      = dot d d / (sqrt (dot d d) * sqrt (dot d d))"
    by (simp only: dot_def divs_def vec3.sel times_divide_times_eq [symmetric] add_divide_distrib)
  also have "\<dots> = 1" using pos by simp
  finally show ?thesis by (simp add: unit_vector_def l)
qed

lemma dot_cross_right: "dot (cross a b) b = 0"
  by (simp add: dot_def cross_def algebra_simps)

lemma dot_cross_left: "dot (cross a b) a = 0"
  by (simp add: dot_def cross_def algebra_simps)

lemma dot_divs: "dot (divs a k) b = dot a b / k"
  by (simp add: dot_def divs_def add_divide_distrib)

lemma dot_commute: "dot a b = dot b a"
  by (simp add: dot_def mult.commute)

lemma dot_cross_cross: "dot (cross a b) (cross a b) = dot a a * dot b b - dot a b * dot a b"
  by (simp add: dot_def cross_def algebra_simps)

lemma squared_length_combination:
  "squared_length (smul al u + smul be v - w) =
     al * al * dot u u + be * be * dot v v + dot w w
       + 2 * al * be * dot u v - 2 * al * dot u w - 2 * be * dot v w"
  by (simp add: squared_length_def dot_def smul_def plus_vec3_def minus_vec3_def algebra_simps)

lemma get_ray_dir:
  "dir (get_ray (new_camera lookfrom lookat vup vfov aspect) s t) =
     smul ((2 * s - 1) * (aspect * tan (vfov * pi / 180 / 2)))
          (unit_vector (cross vup (unit_vector (lookfrom - lookat))))
     + smul ((2 * t - 1) * tan (vfov * pi / 180 / 2))
          (cross (unit_vector (lookfrom - lookat))
                 (unit_vector (cross vup (unit_vector (lookfrom - lookat)))))
     - unit_vector (lookfrom - lookat)"
  by (simp add: get_ray_def new_camera_def Let_def smul_def plus_vec3_def minus_vec3_def
      algebra_simps)

lemma vec3_diff_eq_0: "a - b = vec3 0 0 0 \<longleftrightarrow> a = (b :: vec3)"
  by (cases a; cases b) (simp add: minus_vec3_def)

lemma ex_camera_dir:
  "dir (get_ray (new_camera (vec3 0 0 0) (vec3 0 0 (- 1)) (vec3 0 1 0) 90 1) 0 0) = vec3 (- 1) (- 1) (- 1)"
proof -
  have w: "unit_vector (vec3 0 0 0 - vec3 0 0 (- 1)) = vec3 0 0 1"
    by (simp add: unit_vector_def length_vec3_def squared_length_def minus_vec3_def divs_def)
  have c: "cross (vec3 0 1 0) (vec3 0 0 1) = vec3 1 0 0" by (simp add: cross_def)
  have u: "unit_vector (vec3 1 0 0) = vec3 1 0 0"
    by (simp add: unit_vector_def length_vec3_def squared_length_def divs_def)
  have v: "cross (vec3 0 0 1) (vec3 1 0 0) = vec3 0 1 0" by (simp add: cross_def)
  have th: "(90::real) * pi / 180 / 2 = pi / 4" by simp
  show ?thesis
    unfolding get_ray_dir w c u v th tan_45
    by (simp add: smul_def plus_vec3_def minus_vec3_def)
qed

text \<open>
  Claim C3 says that the direction of every ray of \<^verbatim>\<open>camera::get_ray\<close> has unit
  length. It has not: the direction is the point of the viewport minus the origin, and
  the viewport lies at distance 1 in front of the camera. For the camera at the origin
  that looks down the negative z axis with a vertical field of view of 90 degrees and
  aspect ratio 1 (the one \<^verbatim>\<open>main\<close> keeps in a comment, made square), the ray
  through the lower left corner has direction \<open>(-1, -1, -1)\<close>.
\<close>

theorem get_ray_not_unit_counterexample:
  "vec3 0 0 0 \<noteq> vec3 0 0 (- 1) \<and>
   cross (vec3 0 1 0) (unit_vector (vec3 0 0 0 - vec3 0 0 (- 1))) \<noteq> vec3 0 0 0 \<and>
   (0::real) \<in> {0..1} \<and>
   dir (get_ray (new_camera (vec3 0 0 0) (vec3 0 0 (- 1)) (vec3 0 1 0) 90 1) 0 0)
     = vec3 (- 1) (- 1) (- 1) \<and>
   length_vec3 (dir (get_ray (new_camera (vec3 0 0 0) (vec3 0 0 (- 1)) (vec3 0 1 0) 90 1) 0 0))
     \<noteq> 1"
proof -
  have w: "unit_vector (vec3 0 0 0 - vec3 0 0 (- 1)) = vec3 0 0 1"
    by (simp add: unit_vector_def length_vec3_def squared_length_def minus_vec3_def divs_def)
  have c: "cross (vec3 0 1 0) (vec3 0 0 1) = vec3 1 0 0" by (simp add: cross_def)
  show ?thesis unfolding ex_camera_dir w c
    by (simp add: length_vec3_def squared_length_def)
qed

text \<open>
  Claim C3, amended, a statement of exact arithmetic. For a camera built from a position
  different from the target, an up hint that is not parallel to the viewing direction
  and a vertical field of view strictly between 0 and 180 degrees, the direction of the
  ray through \<open>(s, t)\<close> has squared length
  \<open>1 + ((2s - 1) half_width)\<^sup>2 + ((2t - 1) half_height)\<^sup>2\<close> with \<open>half_height > 0\<close>: its
  length is at least 1, and equal to 1 exactly at \<open>t = 1/2\<close> with \<open>s = 1/2\<close> (or with
  aspect ratio 0). The rounded \<^verbatim>\<open>float\<close> values of the program follow this only up to
  rounding: there the length of the central ray can fall just below 1.
\<close>

theorem get_ray_direction_length:
  assumes "lookfrom \<noteq> lookat"
    and "cross vup (unit_vector (lookfrom - lookat)) \<noteq> vec3 0 0 0"
    and "0 < vfov" and "vfov < 180"
  shows "squared_length (dir (get_ray (new_camera lookfrom lookat vup vfov aspect) s t)) =
           1 + ((2 * s - 1) * (aspect * tan (vfov * pi / 180 / 2))) ^ 2
             + ((2 * t - 1) * tan (vfov * pi / 180 / 2)) ^ 2 \<and>
         0 < tan (vfov * pi / 180 / 2) \<and>
         length_vec3 (dir (get_ray (new_camera lookfrom lookat vup vfov aspect) s t)) \<ge> 1 \<and>
         (length_vec3 (dir (get_ray (new_camera lookfrom lookat vup vfov aspect) s t)) = 1 \<longleftrightarrow>
            (s = 1 / 2 \<or> aspect = 0) \<and> t = 1 / 2)"
proof -
  let ?w = "unit_vector (lookfrom - lookat)"
  let ?u = "unit_vector (cross vup ?w)"
  let ?v = "cross ?w ?u"
  let ?h = "tan (vfov * pi / 180 / 2)"
  let ?al = "(2 * s - 1) * (aspect * ?h)"
  let ?be = "(2 * t - 1) * ?h"
  let ?d = "dir (get_ray (new_camera lookfrom lookat vup vfov aspect) s t)"
  have "0 < vfov * pi / 180 / 2" using assms(3) by simp
  moreover have "vfov * pi / 180 / 2 < pi / 2" using assms(4) by simp
  ultimately have h: "0 < ?h" by (rule tan_gt_zero)
  have "lookfrom - lookat \<noteq> vec3 0 0 0" using assms(1) by (simp add: vec3_diff_eq_0)
  then have ww: "dot ?w ?w = 1" by (rule dot_unit_vector)
  have uu: "dot ?u ?u = 1" using assms(2) by (rule dot_unit_vector)
  have uw: "dot ?u ?w = 0"
    by (simp add: unit_vector_def [of "cross vup ?w"] dot_divs dot_cross_right)
  have vw: "dot ?v ?w = 0" by (rule dot_cross_left)
  have uv: "dot ?u ?v = 0" using dot_cross_right [of ?w ?u] by (simp add: dot_commute)
  have vv: "dot ?v ?v = 1" using ww uu uw by (simp add: dot_cross_cross dot_commute [of ?w ?u])
  have sl: "squared_length ?d = 1 + ?al ^ 2 + ?be ^ 2"
    unfolding get_ray_dir squared_length_combination ww uu uw vw uv vv
    by (simp add: power2_eq_square)
  have ge: "squared_length ?d \<ge> 1" unfolding sl by simp
  have l1: "length_vec3 ?d \<ge> 1"
    unfolding length_vec3_def using ge by simp
  have "length_vec3 ?d = 1 \<longleftrightarrow> squared_length ?d = 1"
    unfolding length_vec3_def by simp
  also have "\<dots> \<longleftrightarrow> ?al ^ 2 + ?be ^ 2 = 0" unfolding sl by auto
  also have "\<dots> \<longleftrightarrow> ?al = 0 \<and> ?be = 0" by (rule sum_power2_eq_zero_iff)
  also have "\<dots> \<longleftrightarrow> (s = 1 / 2 \<or> aspect = 0) \<and> t = 1 / 2" using h by auto
  finally show ?thesis using sl l1 h by blast
qed

theorem get_ray_direction_length_witness:
  "vec3 0 0 0 \<noteq> vec3 0 0 (- 1) \<and>
   cross (vec3 0 1 0) (unit_vector (vec3 0 0 0 - vec3 0 0 (- 1))) \<noteq> vec3 0 0 0 \<and>
   (0::real) < 90 \<and> (90::real) < 180 \<and>
   squared_length (dir (get_ray (new_camera (vec3 0 0 0) (vec3 0 0 (- 1)) (vec3 0 1 0) 90 1) 0 0))
     = 3 \<and>
   length_vec3 (dir (get_ray (new_camera (vec3 0 0 0) (vec3 0 0 (- 1)) (vec3 0 1 0) 90 1) 0 0))
     \<ge> 1 \<and>
   length_vec3 (dir (get_ray (new_camera (vec3 0 0 0) (vec3 0 0 (- 1)) (vec3 0 1 0) 90 1) 0 0))
     \<noteq> 1"
proof -
  have w: "unit_vector (vec3 0 0 0 - vec3 0 0 (- 1)) = vec3 0 0 1"
    by (simp add: unit_vector_def length_vec3_def squared_length_def minus_vec3_def divs_def)
  have c: "cross (vec3 0 1 0) (vec3 0 0 1) = vec3 1 0 0" by (simp add: cross_def)
  have h1: "vec3 0 0 0 \<noteq> vec3 0 0 (- 1)" by simp
  have h2: "cross (vec3 0 1 0) (unit_vector (vec3 0 0 0 - vec3 0 0 (- 1))) \<noteq> vec3 0 0 0"
    unfolding w c by simp
  have h3: "(0::real) < 90" and h4: "(90::real) < 180" by simp_all
  have th: "(90::real) * pi / 180 / 2 = pi / 4" by simp
  from get_ray_direction_length [OF h1 h2 h3 h4, of 1 0 0] h1 h2
  show ?thesis unfolding th tan_45 by simp
qed

section \<open>The depth cutoff\<close>

text \<open>
  Claim C2. For every scene, ray and state of the random sources, \<^verbatim>\<open>color\<close> called
  with a depth greater than 50 returns the colour \<open>(0, 0, 0)\<close> (and draws no random
  number). The instance below is depth 51 with a ray that hits a sphere of the scene.
\<close>

theorem color_depth_cutoff:
  "depth > 50 \<Longrightarrow> color r world depth g = Inr (vec3 0 0 0, g)"
  by (subst color.simps) simp

theorem color_depth_cutoff_witness:
  "(51::int) > 50 \<and> fst (hit (Hitable_list [Sphere ex_near]) ex_ray 0.0001 FLT_MAX default_hit_record) \<and>
   color ex_ray (Hitable_list [Sphere ex_near]) 51 ex_rng = Inr (vec3 0 0 0, ex_rng)"
proof -
  have h: "(51::int) > 50" by simp
  have f: "fst (hit (Hitable_list [Sphere ex_near]) ex_ray 0.0001 FLT_MAX default_hit_record)"
    by (simp add: sphere_hit_cases ex_near_roots FLT_MAX_def)
  from color_depth_cutoff [OF h, of ex_ray "Hitable_list [Sphere ex_near]" ex_rng] h f
  show ?thesis by simp
qed

section \<open>The range of \<^verbatim>\<open>random_float\<close>\<close>

text \<open>
  The first call fixes the range; every later call draws from that range, whatever its
  own arguments are.
\<close>

lemma random_float_first:
  assumes "distribution g = None"
  shows "random_float minv maxv g =
     (shd (generator g) * (maxv - minv) + minv,
      g\<lparr>distribution := Some (minv, maxv), generator := stl (generator g)\<rparr>)"
  using assms by (simp add: random_float_def)

lemma random_float_initialised:
  assumes "distribution g = Some (a, b)"
  shows "random_float minv maxv g =
     (shd (generator g) * (b - a) + a, g\<lparr>generator := stl (generator g)\<rparr>)"
  using assms by (cases g) (simp add: random_float_def)

lemma random_vec3_range_initialised:
  assumes "distribution g = Some (a, b)"
  shows "fst (random_vec3_range minv maxv g) =
     arrange (arg_order g)
          (shd (generator g) * (b - a) + a)
          (shd (stl (generator g)) * (b - a) + a)
          (shd (stl (stl (generator g))) * (b - a) + a)"
  using assms by (simp add: random_vec3_range_def random_float_initialised)

text \<open>
  Claim C4 says that every call of \<^verbatim>\<open>random_float(min, max)\<close> returns a value of the
  range of that call. After a first call \<^verbatim>\<open>random_float()\<close>, which is how
  \<^verbatim>\<open>randomScene\<close> begins, the call \<^verbatim>\<open>random_float(0, 0.9)\<close> returns 0.95 when the
  generator delivers 0.95.
\<close>

theorem random_float_second_call_out_of_range:
  "fst (random_float 0 1 ex_rng) = 3 / 10 \<and>
   fst (random_float 0 0.9 (snd (random_float 0 1 ex_rng))) = 19 / 20 \<and>
   \<not> fst (random_float 0 0.9 (snd (random_float 0 1 ex_rng))) \<le> 0.9"
  by (simp add: random_float_def ex_rng_def)

section \<open>Total internal reflection\<close>

lemma refract_false:
  "\<not> fst (refract v n ni_over_nt refracted) \<Longrightarrow>
     refract v n ni_over_nt refracted = (False, refracted)"
  by (simp add: refract_def Let_def split: if_splits)

text \<open>
  When \<^verbatim>\<open>refract\<close> reports total internal reflection, the scattered ray is the
  reflected one for every value of \<^verbatim>\<open>rand()\<close> below \<^verbatim>\<open>RAND_MAX\<close>; for
  \<^verbatim>\<open>RAND_MAX\<close> itself the quotient is 1, the test \<open>1 < 1\<close> fails and the scattered ray
  gets the vector \<^verbatim>\<open>refracted\<close>, which nothing has assigned.
\<close>

lemma dielectric_scatter_total_reflection:
  assumes "\<not> fst (refract (dir r_in)
             (if dot (dir r_in) (rec_normal rec) > 0 then - rec_normal rec else rec_normal rec)
             (if dot (dir r_in) (rec_normal rec) > 0 then ref_idx else 1 / ref_idx)
             (vec3 0 0 0))"
  shows "dir (fst (snd (snd (dielectric_scatter ref_idx r_in rec g)))) =
     (if real_of_int (shd (rand_seq g)) / real_of_int RAND_MAX < 1
      then reflect (unit_vector (dir r_in)) (rec_normal rec) else vec3 0 0 0)"
proof (cases "dot (dir r_in) (rec_normal rec) > 0")
  case True
  with assms have "refract (dir r_in) (- rec_normal rec) ref_idx (vec3 0 0 0) = (False, vec3 0 0 0)"
    using refract_false by simp
  then show ?thesis using True by (simp add: dielectric_scatter_def Let_def)
next
  case False
  with assms have "refract (dir r_in) (rec_normal rec) (1 / ref_idx) (vec3 0 0 0) = (False, vec3 0 0 0)"
    using refract_false by simp
  then show ?thesis using False by (simp add: dielectric_scatter_def Let_def)
qed

lemma ex_unit: "unit_vector (dir ex_r_in) = vec3 (4 / 5) (3 / 5) 0"
  by (simp add: unit_vector_def length_vec3_def squared_length_def divs_def ex_r_in_def)

lemma ex_refract:
  "refract (dir ex_r_in) (- rec_normal ex_rec) (3 / 2) (vec3 0 0 0) = (False, vec3 0 0 0)"
  by (simp add: refract_def Let_def ex_unit dot_def ex_rec_def uminus_vec3_def)

text \<open>
  Claim C7 says that under total internal reflection the scattered direction is the
  mirror reflection for every random draw. For glass of index 1.5, the example ray
  leaving it at a flat angle (discriminant \<open>-0.44\<close>) and \<^verbatim>\<open>rand()\<close> returning
  \<^verbatim>\<open>RAND_MAX\<close>, the scattered direction is the zero vector, while the reflection is
  \<open>(4/5, -3/5, 0)\<close>.
\<close>

theorem dielectric_total_reflection_lost:
  "1 - 1.5 * 1.5 * (1 - dot (unit_vector (dir ex_r_in)) (- rec_normal ex_rec)
                         * dot (unit_vector (dir ex_r_in)) (- rec_normal ex_rec)) < (0::real) \<and>
   reflect (unit_vector (dir ex_r_in)) (rec_normal ex_rec) = vec3 (4 / 5) (- 3 / 5) 0 \<and>
   shd (rand_seq ex_rng) = RAND_MAX \<and>
   dir (fst (snd (snd (dielectric_scatter 1.5 ex_r_in ex_rec ex_rng)))) = vec3 0 0 0"
proof -
  have d: "dot (dir ex_r_in) (rec_normal ex_rec) > 0"
    by (simp add: dot_def ex_r_in_def ex_rec_def)
  have r: "real_of_int (shd (rand_seq ex_rng)) / real_of_int RAND_MAX = 1"
    by (simp add: ex_rng_def RAND_MAX_def)
  have s: "dir (fst (snd (snd (dielectric_scatter 1.5 ex_r_in ex_rec ex_rng)))) = vec3 0 0 0"
    by (simp add: dielectric_scatter_def Let_def d ex_refract r)
  show ?thesis using s
    by (simp add: ex_unit dot_def ex_rec_def uminus_vec3_def reflect_def minus_vec3_def smul_def
        ex_rng_def)
qed

end
